theory Spec2Isabelle
  imports Main "HOL-Library.Sublist"
begin

section \<open>The NDR validator: extraction and rule battery of \<open>app.py\<close>\<close>

text \<open>
  The two functions of \<open>app.py\<close> that carry the logic, \<open>extract_services_with_dates\<close>
  and \<open>validate_ndr\<close>, are embedded as HOL functions. Python exceptions are values of
  \<open>py_error\<close>; a computation that may raise returns \<open>py_error + 'a\<close> (\<open>Inl\<close> the
  exception), and \<open>try: ... except: ...\<close> is the combinator \<open>try_except\<close>. \<open>None\<close> is
  \<open>None\<close> of an option type.

  A Python \<open>str\<close> is represented by the bytes of its UTF-8 encoding, a \<open>string\<close>.
  Equality, concatenation and the search for an ASCII text inside a string are the same
  on the encoding as on the string.

  The source calls four functions of the Python library whose result depends on tables
  and settings of the interpreter: \<open>ET.parse\<close>, \<open>datetime.strptime\<close>, \<open>int\<close> on a string
  and \<open>str.upper\<close>. They are parameters of the embedding, named \<open>ET_parse\<close>, \<open>strptime\<close>,
  \<open>int_of_str\<close> and \<open>str_upper\<close>, and every general theorem below holds for all values of
  these parameters, so for whatever the interpreter's functions return.
\<close>

subsection \<open>Exceptions\<close>

datatype py_error = ParseError | ValueError | TypeError | LookupError

type_synonym 'a result = "py_error + 'a"

definition bind_result :: "'a result \<Rightarrow> ('a \<Rightarrow> 'b result) \<Rightarrow> 'b result" where
  "bind_result m f = (case m of Inl e \<Rightarrow> Inl e | Inr v \<Rightarrow> f v)"

text \<open>\<open>try: body except: handler\<close>, with the bare \<open>except:\<close> of the source, which
  catches every exception.\<close>

definition try_except :: "'a result \<Rightarrow> 'a result \<Rightarrow> 'a result" where
  "try_except body handler = (case body of Inl e \<Rightarrow> handler | Inr v \<Rightarrow> Inr v)"

subsection \<open>Dates\<close>

text \<open>The \<open>datetime\<close> values of the source all come from the format \<open>%Y-%m-%d\<close>, so
  their time of day is midnight; the record keeps year, month and day.\<close>

record datetime =
  year :: nat
  month :: nat
  day :: nat

text \<open>\<open>a < b\<close> on two such values.\<close>

definition dt_less :: "datetime \<Rightarrow> datetime \<Rightarrow> bool" where
  "dt_less a b =
     (year a < year b \<or> (year a = year b \<and> (month a < month b \<or> (month a = month b \<and> day a < day b))))"

subsection \<open>The library functions that are parameters\<close>

text \<open>\<open>datetime.strptime(s, "%Y-%m-%d")\<close> on a string: the date, or the exception.\<close>

type_synonym strptime_fn = "string \<Rightarrow> datetime result"

text \<open>\<open>int(s)\<close> on a string: the integer, or the exception.\<close>

type_synonym int_fn = "string \<Rightarrow> int result"

text \<open>\<open>s.upper()\<close>.\<close>

type_synonym upper_fn = "string \<Rightarrow> string"

text \<open>Both calls on a value that may be \<open>None\<close>: the library raises \<open>TypeError\<close> for
  \<open>None\<close> before it looks at anything else.\<close>

definition strptime_opt :: "strptime_fn \<Rightarrow> string option \<Rightarrow> datetime result" where
  "strptime_opt strptime v = (case v of None \<Rightarrow> Inl TypeError | Some s \<Rightarrow> strptime s)"

definition int_opt :: "int_fn \<Rightarrow> string option \<Rightarrow> int result" where
  "int_opt int_of_str v = (case v of None \<Rightarrow> Inl TypeError | Some s \<Rightarrow> int_of_str s)"

subsection \<open>Python operations that the embedding computes\<close>

text \<open>Truthiness of an optional string: \<open>None\<close> and the empty string are false.\<close>

definition truthy :: "string option \<Rightarrow> bool" where
  "truthy v = (case v of None \<Rightarrow> False | Some s \<Rightarrow> s \<noteq> [])"

text \<open>\<open>needle in haystack\<close> on strings: a contiguous occurrence.\<close>

fun str_contains :: "string \<Rightarrow> string \<Rightarrow> bool" where
  "str_contains needle [] = (needle = [])"
| "str_contains needle (c # cs) = (prefix needle (c # cs) \<or> str_contains needle cs)"

definition digit_char :: "nat \<Rightarrow> char" where
  "digit_char n = char_of (48 + n)"

text \<open>\<open>str(n)\<close> for a natural number and for an integer. The integers that the source
  prints are differences of years, far below the length at which \<open>str\<close> refuses.\<close>

fun str_nat :: "nat \<Rightarrow> string" where
  "str_nat n = (if n < 10 then [digit_char n] else str_nat (n div 10) @ [digit_char (n mod 10)])"

definition str_int :: "int \<Rightarrow> string" where
  "str_int i = (if i < 0 then CHR ''-'' # str_nat (nat (- i)) else str_nat (nat i))"

text \<open>\<open>str(dt.date())\<close>: the ISO form, zero-padded.\<close>

definition zfill :: "nat \<Rightarrow> string \<Rightarrow> string" where
  "zfill w s = replicate (w - length s) CHR ''0'' @ s"

definition isoformat :: "datetime \<Rightarrow> string" where
  "isoformat d = zfill 4 (str_nat (year d)) @ ''-'' @ zfill 2 (str_nat (month d)) @ ''-'' @ zfill 2 (str_nat (day d))"

subsection \<open>The normalized record\<close>

text \<open>The dictionaries of the source. The inner dictionaries are built with a fixed set
  of keys, so they are records; the three collections are dictionaries keyed by the
  visit date, whose iteration order the rules depend on, so they are association lists
  in insertion order; \<open>services['patient']\<close> may lack any of its keys, so it is a map.\<close>

record encounter =
  arv :: "string option"
  tb :: "string option"

record regimen =
  code :: string
  type :: "string option"
  mmd :: "string option"
  dsd :: "string option"
  duration :: "string option"

record lab =
  test_id :: "string option"
  collected :: "string option"

record services =
  encounters :: "(string \<times> encounter) list"
  regimens :: "(string \<times> regimen) list"
  labs :: "(string \<times> lab) list"
  patient :: "string \<rightharpoonup> string option"
  art_start :: "datetime option"
  ipt_codes :: "string set"

text \<open>\<open>d[k] = v\<close> on a dictionary in insertion order: an existing key keeps its place
  and takes the new value, a new key goes to the end.\<close>

fun dict_set :: "'k \<Rightarrow> 'v \<Rightarrow> ('k \<times> 'v) list \<Rightarrow> ('k \<times> 'v) list" where
  "dict_set k v [] = [(k, v)]"
| "dict_set k v ((k', v') # kvs) =
     (if k' = k then (k', v) # kvs else (k', v') # dict_set k v kvs)"

text \<open>\<open>d.get(k)\<close> where the values may themselves be \<open>None\<close>.\<close>

definition dict_get :: "('k \<rightharpoonup> 'v option) \<Rightarrow> 'k \<Rightarrow> 'v option" where
  "dict_get d k = (case d k of None \<Rightarrow> None | Some v \<Rightarrow> v)"

subsection \<open>The issue messages\<close>

definition cross_mark :: string where
  "cross_mark = [CHR 0xE2, CHR 0x9D, CHR 0x8C]"

definition warning_sign :: string where
  "warning_sign = [CHR 0xE2, CHR 0x9A, CHR 0xA0, CHR 0xEF, CHR 0xB8, CHR 0x8F]"

text \<open>A value in an f-string: \<open>None\<close> prints as \<open>None\<close>.\<close>

definition fmt :: "string option \<Rightarrow> string" where
  "fmt v = (case v of None \<Rightarrow> ''None'' | Some s \<Rightarrow> s)"

definition missing_arv_msg :: "string \<Rightarrow> string" where
  "missing_arv_msg date = cross_mark @ '' Missing ARV regimen in encounter on '' @ date @ ''.''"

definition missing_visit_date_msg :: string where
  "missing_visit_date_msg = cross_mark @ '' Missing VisitDate in an encounter.''"

definition before_art_start_msg :: "string \<Rightarrow> datetime \<Rightarrow> string" where
  "before_art_start_msg date art =
     cross_mark @ '' Encounter on '' @ date @ '' before ARTStartDate '' @ isoformat art @ ''.''"

definition tb_no_ipt_msg :: "string \<Rightarrow> string" where
  "tb_no_ipt_msg d = cross_mark @ '' TB positive on '' @ d @ '', but no IPT regimen found.''"

definition lab_incomplete_msg :: "string \<Rightarrow> string" where
  "lab_incomplete_msg date = cross_mark @ '' Lab report on '' @ date @ '' missing test ID or collection date.''"

definition mmd_msg :: "string \<Rightarrow> string" where
  "mmd_msg date = cross_mark @ '' Regimen on '' @ date @ '' has duration >30 but no MMD.''"

definition arv_mismatch_msg :: "string \<Rightarrow> string option \<Rightarrow> string \<Rightarrow> string" where
  "arv_mismatch_msg date encounter_arv regimen_code =
     cross_mark @ '' ARV mismatch on '' @ date @ '': Encounter='' @ fmt encounter_arv @ '', Regimen='' @ regimen_code"

definition age_mismatch_msg :: "string option \<Rightarrow> int \<Rightarrow> string" where
  "age_mismatch_msg age calc_age =
     cross_mark @ '' Reported age '' @ fmt age @ '' does not match calculated age '' @ str_int calc_age @ ''.''"

definition age_format_warning :: string where
  "age_format_warning = warning_sign @ '' Could not validate DateOfBirth or age due to format issues.''"

subsection \<open>\<open>validate_ndr\<close>\<close>

text \<open>Each loop of the source is a recursive function over the dictionary's items that
  passes the list \<open>issues\<close> along. A loop whose body can raise is in the exception
  monad.\<close>

text \<open>Lines 105 to 109.\<close>

fun encounter_loop :: "(string \<times> encounter) list \<Rightarrow> string list \<Rightarrow> string list" where
  "encounter_loop [] issues = issues"
| "encounter_loop ((date, e) # rest) issues =
     (let issues = (if \<not> truthy (arv e) then issues @ [missing_arv_msg date] else issues);
          issues = (if date = ''Unknown'' then issues @ [missing_visit_date_msg] else issues)
      in encounter_loop rest issues)"

text \<open>Lines 113 to 119.\<close>

fun art_start_loop :: "strptime_fn \<Rightarrow> datetime \<Rightarrow> string list \<Rightarrow> string list \<Rightarrow> string list result" where
  "art_start_loop strptime art [] issues = Inr issues"
| "art_start_loop strptime art (date # rest) issues =
     bind_result
       (try_except
          (bind_result (strptime date) (\<lambda>visit_date.
             Inr (if dt_less visit_date art then issues @ [before_art_start_msg date art] else issues)))
          (Inr issues))
       (\<lambda>issues. art_start_loop strptime art rest issues)"

text \<open>Lines 123 and 124.\<close>

fun tb_loop :: "string list \<Rightarrow> string list \<Rightarrow> string list" where
  "tb_loop [] issues = issues"
| "tb_loop (d # rest) issues = tb_loop rest (issues @ [tb_no_ipt_msg d])"

text \<open>Lines 126 to 128.\<close>

fun lab_loop :: "(string \<times> lab) list \<Rightarrow> string list \<Rightarrow> string list" where
  "lab_loop [] issues = issues"
| "lab_loop ((date, l) # rest) issues =
     lab_loop rest
       (if \<not> truthy (test_id l) \<or> \<not> truthy (collected l) then issues @ [lab_incomplete_msg date]
        else issues)"

text \<open>Lines 130 to 136. \<open>r.get('duration') or 0\<close> is the duration string when it is
  neither \<open>None\<close> nor empty, and the integer 0 otherwise, which \<open>int\<close> returns as it is.\<close>

definition duration_int :: "int_fn \<Rightarrow> string option \<Rightarrow> int result" where
  "duration_int int_of_str v = (if truthy v then int_opt int_of_str v else Inr 0)"

fun mmd_loop :: "int_fn \<Rightarrow> (string \<times> regimen) list \<Rightarrow> string list \<Rightarrow> string list result" where
  "mmd_loop int_of_str [] issues = Inr issues"
| "mmd_loop int_of_str ((date, r) # rest) issues =
     bind_result
       (try_except
          (bind_result (duration_int int_of_str (duration r)) (\<lambda>duration.
             Inr (if duration > 30 \<and> \<not> truthy (mmd r) then issues @ [mmd_msg date] else issues)))
          (Inr issues))
       (\<lambda>issues. mmd_loop int_of_str rest issues)"

text \<open>Lines 138 to 144. A regimen dictionary always has its five keys, so it is true
  whenever it is not \<open>None\<close>.\<close>

fun arv_match_loop :: "(string \<times> regimen) list \<Rightarrow> (string \<times> encounter) list \<Rightarrow> string list \<Rightarrow> string list" where
  "arv_match_loop regs [] issues = issues"
| "arv_match_loop regs ((date, e) # rest) issues =
     (let encounter_arv = arv e;
          regimen = map_of regs date
      in arv_match_loop regs rest
           (case regimen of
              None \<Rightarrow> issues
            | Some reg \<Rightarrow>
                if type reg = Some ''ART'' then
                  (let regimen_code = code reg
                   in if truthy encounter_arv \<and> regimen_code \<noteq> [] \<and> encounter_arv \<noteq> Some regimen_code
                      then issues @ [arv_mismatch_msg date encounter_arv regimen_code]
                      else issues)
                else issues))"

text \<open>Line 152: the booleans of Python are the integers 0 and 1.\<close>

definition calc_age :: "datetime \<Rightarrow> datetime \<Rightarrow> int" where
  "calc_age rpt_dt dob_dt =
     int (year rpt_dt) - int (year dob_dt)
       - (if month rpt_dt < month dob_dt \<or> (month rpt_dt = month dob_dt \<and> day rpt_dt < day dob_dt)
          then 1 else 0)"

text \<open>Lines 146 to 156.\<close>

definition age_check :: "strptime_fn \<Rightarrow> int_fn \<Rightarrow> services \<Rightarrow> string list \<Rightarrow> string list result" where
  "age_check strptime int_of_str s issues =
     (let dob = dict_get (patient s) ''dob'';
          age = dict_get (patient s) ''age'';
          report_date = dict_get (patient s) ''report_date''
      in try_except
           (bind_result (strptime_opt strptime dob) (\<lambda>dob_dt.
            bind_result (strptime_opt strptime report_date) (\<lambda>rpt_dt.
            bind_result (int_opt int_of_str age) (\<lambda>n.
              Inr (if abs (n - calc_age rpt_dt dob_dt) > 1
                   then issues @ [age_mismatch_msg age (calc_age rpt_dt dob_dt)]
                   else issues)))))
           (Inr (issues @ [age_format_warning])))"

text \<open>The issues as they stand before line 146.\<close>

definition cross_checks :: "strptime_fn \<Rightarrow> int_fn \<Rightarrow> services \<Rightarrow> string list result" where
  "cross_checks strptime int_of_str s =
     (let issues = encounter_loop (encounters s) []
      in bind_result
           (case art_start s of
              None \<Rightarrow> Inr issues
            | Some art \<Rightarrow> art_start_loop strptime art (map fst (encounters s)) issues)
           (\<lambda>issues.
              let tb_encounters = map fst (filter (\<lambda>(d, e). tb e = Some ''1'') (encounters s));
                  issues = (if tb_encounters \<noteq> [] \<and> ipt_codes s = {} then tb_loop tb_encounters issues
                            else issues);
                  issues = lab_loop (labs s) issues
              in bind_result (mmd_loop int_of_str (regimens s) issues) (\<lambda>issues.
                   Inr (arv_match_loop (regimens s) (encounters s) issues))))"

definition validate_ndr :: "strptime_fn \<Rightarrow> int_fn \<Rightarrow> services \<Rightarrow> string list result" where
  "validate_ndr strptime int_of_str s =
     bind_result (cross_checks strptime int_of_str s) (age_check strptime int_of_str s)"

subsection \<open>The parsed document\<close>

text \<open>The tree that \<open>ET.parse\<close> returns: an element has a tag, the text before its first
  child (\<open>None\<close> when there is none) and its child elements in document order. The
  source reads neither attributes nor tails. The parser \<open>ET_parse\<close> is a parameter of
  the extractor: on a file it returns the root element, or raises.\<close>

datatype element = Element (tag: string) (text_of: "string option") (children: "element list")

text \<open>\<open>Element.iter()\<close>: the element and its descendants in document order.\<close>

fun iter :: "element \<Rightarrow> element list" where
  "iter (Element t x cs) = Element t x cs # concat (map iter cs)"

text \<open>\<open>root.findall('.//T')\<close>: the descendants with tag \<open>T\<close> in document order; the
  root itself is not among them.\<close>

definition findall :: "element \<Rightarrow> string \<Rightarrow> element list" where
  "findall root t = filter (\<lambda>e. tag e = t) (concat (map iter (children root)))"

text \<open>\<open>root.find('.//T')\<close>: the first of them, or \<open>None\<close>.\<close>

definition find_elem :: "element \<Rightarrow> string \<Rightarrow> element option" where
  "find_elem root t = (case findall root t of [] \<Rightarrow> None | e # _ \<Rightarrow> Some e)"

text \<open>The text that \<open>findtext\<close> returns for an element it found: an absent text is the
  empty string.\<close>

definition text_or_empty :: "element \<Rightarrow> string" where
  "text_or_empty e = (case text_of e of None \<Rightarrow> [] | Some x \<Rightarrow> x)"

text \<open>\<open>elem.findtext('T')\<close>: the text of the first child with tag \<open>T\<close>, or \<open>None\<close>
  when there is no such child.\<close>

definition findtext :: "element \<Rightarrow> string \<Rightarrow> string option" where
  "findtext elem t =
     (case filter (\<lambda>c. tag c = t) (children elem) of
        [] \<Rightarrow> None
      | c # _ \<Rightarrow> Some (text_or_empty c))"

text \<open>\<open>elem.findtext('A/B')\<close>: the first child tagged \<open>B\<close> of a child tagged \<open>A\<close>, the
  children tagged \<open>A\<close> taken in order.\<close>

definition findtext_path :: "element \<Rightarrow> string \<Rightarrow> string \<Rightarrow> string option" where
  "findtext_path elem a b =
     (case concat (map (\<lambda>c. filter (\<lambda>g. tag g = b) (children c))
                       (filter (\<lambda>c. tag c = a) (children elem))) of
        [] \<Rightarrow> None
      | g # _ \<Rightarrow> Some (text_or_empty g))"

text \<open>\<open>v or d\<close> for an optional string \<open>v\<close>.\<close>

definition or_default :: "string option \<Rightarrow> string \<Rightarrow> string" where
  "or_default v d = (case v of None \<Rightarrow> d | Some x \<Rightarrow> if x = [] then d else x)"

subsection \<open>\<open>extract_services_with_dates\<close>\<close>

text \<open>The key and the entry that the body of each loop builds from a node.\<close>

definition visit_date :: "element \<Rightarrow> string" where
  "visit_date node = or_default (findtext node ''VisitDate'') ''Unknown''"

definition regimen_code :: "element \<Rightarrow> string" where
  "regimen_code reg = or_default (findtext_path reg ''PrescribedRegimen'' ''Code'') []"

definition regimen_entry :: "element \<Rightarrow> regimen" where
  "regimen_entry reg =
     \<lparr>code = regimen_code reg,
      type = findtext reg ''PrescribedRegimenTypeCode'',
      mmd = findtext reg ''MultiMonthDispensing'',
      dsd = findtext reg ''DifferentiatedServiceDelivery'',
      duration = findtext reg ''PrescribedRegimenDuration''\<rparr>"

definition encounter_entry :: "element \<Rightarrow> encounter" where
  "encounter_entry e = \<lparr>arv = findtext_path e ''ARVDrugRegimen'' ''Code'', tb = findtext e ''TBStatus''\<rparr>"

definition lab_entry :: "element \<Rightarrow> lab" where
  "lab_entry l = \<lparr>test_id = findtext l ''LaboratoryTestIdentifier'', collected = findtext l ''CollectionDate''\<rparr>"

text \<open>Line 85.\<close>

definition has_inh :: "upper_fn \<Rightarrow> string \<Rightarrow> bool" where
  "has_inh str_upper c = str_contains ''INH'' (str_upper c)"

text \<open>Lines 77 to 86.\<close>

fun regimen_loop :: "upper_fn \<Rightarrow> element list \<Rightarrow> services \<Rightarrow> services" where
  "regimen_loop str_upper [] s = s"
| "regimen_loop str_upper (reg # rest) s =
     (let date = visit_date reg;
          s = s\<lparr>regimens := dict_set date (regimen_entry reg) (regimens s)\<rparr>;
          s = (if has_inh str_upper (regimen_code reg) then s\<lparr>ipt_codes := insert date (ipt_codes s)\<rparr>
               else s)
      in regimen_loop str_upper rest s)"

text \<open>Lines 88 to 92.\<close>

fun hiv_encounter_loop :: "element list \<Rightarrow> services \<Rightarrow> services" where
  "hiv_encounter_loop [] s = s"
| "hiv_encounter_loop (e # rest) s =
     hiv_encounter_loop rest (s\<lparr>encounters := dict_set (visit_date e) (encounter_entry e) (encounters s)\<rparr>)"

text \<open>Lines 94 to 99.\<close>

fun laboratory_loop :: "element list \<Rightarrow> services \<Rightarrow> services" where
  "laboratory_loop [] s = s"
| "laboratory_loop (l # rest) s =
     laboratory_loop rest (s\<lparr>labs := dict_set (visit_date l) (lab_entry l) (labs s)\<rparr>)"

text \<open>Lines 50 to 57.\<close>

definition empty_services :: services where
  "empty_services =
     \<lparr>encounters = [], regimens = [], labs = [], patient = Map.empty, art_start = None, ipt_codes = {}\<rparr>"

text \<open>Lines 59 to 66.\<close>

definition patient_step :: "element \<Rightarrow> services \<Rightarrow> services" where
  "patient_step root s =
     (let s = (case find_elem root ''PatientDemographics'' of
                 None \<Rightarrow> s
               | Some p \<Rightarrow> s\<lparr>patient := (patient s)(''dob'' \<mapsto> findtext p ''PatientDateOfBirth'')\<rparr>)
      in case find_elem root ''CommonQuestions'' of
           None \<Rightarrow> s
         | Some common \<Rightarrow>
             s\<lparr>patient := (patient s)(''age'' \<mapsto> findtext common ''PatientAge'',
                                       ''report_date'' \<mapsto> findtext common ''DateOfLastReport'')\<rparr>)"

text \<open>Lines 68 to 75.\<close>

definition art_start_step :: "strptime_fn \<Rightarrow> element \<Rightarrow> services \<Rightarrow> services result" where
  "art_start_step strptime root s =
     (case find_elem root ''HIVQuestions'' of
        None \<Rightarrow> Inr s
      | Some hiv_q \<Rightarrow>
          (let art_date = findtext hiv_q ''ARTStartDate''
           in if truthy art_date
              then try_except
                     (bind_result (strptime_opt strptime art_date) (\<lambda>dt. Inr (s\<lparr>art_start := Some dt\<rparr>)))
                     (Inr s)
              else Inr s))"

text \<open>Lines 48 to 101, from the root element on.\<close>

definition extract_root :: "strptime_fn \<Rightarrow> upper_fn \<Rightarrow> element \<Rightarrow> services result" where
  "extract_root strptime str_upper root =
     bind_result (art_start_step strptime root (patient_step root empty_services)) (\<lambda>s.
       Inr (laboratory_loop (findall root ''LaboratoryReport'')
             (hiv_encounter_loop (findall root ''HIVEncounter'')
               (regimen_loop str_upper (findall root ''Regimen'') s))))"

definition extract_services_with_dates ::
    "('f \<Rightarrow> element result) \<Rightarrow> strptime_fn \<Rightarrow> upper_fn \<Rightarrow> 'f \<Rightarrow> services result" where
  "extract_services_with_dates ET_parse strptime str_upper xml_file =
     bind_result (ET_parse xml_file) (extract_root strptime str_upper)"

subsection \<open>The rules, stated on the normalized record\<close>

text \<open>What each rule contributes to the issue list, as a function of the record. The
  lemmas below show that the loops of \<open>validate_ndr\<close> compute these lists.\<close>

fun encounter_issues :: "(string \<times> encounter) list \<Rightarrow> string list" where
  "encounter_issues [] = []"
| "encounter_issues ((date, e) # rest) =
     (if arv e = None \<or> arv e = Some [] then [missing_arv_msg date] else [])
     @ (if date = ''Unknown'' then [missing_visit_date_msg] else [])
     @ encounter_issues rest"

text \<open>An encounter key that \<open>strptime\<close> reads as a date strictly before the ART start.\<close>

definition is_before :: "strptime_fn \<Rightarrow> datetime \<Rightarrow> string \<Rightarrow> bool" where
  "is_before strptime art date = (case strptime date of Inl e \<Rightarrow> False | Inr d \<Rightarrow> dt_less d art)"

definition art_start_issues :: "strptime_fn \<Rightarrow> datetime option \<Rightarrow> string list \<Rightarrow> string list" where
  "art_start_issues strptime a dates =
     (case a of
        None \<Rightarrow> []
      | Some art \<Rightarrow> map (\<lambda>date. before_art_start_msg date art) (filter (is_before strptime art) dates))"

definition tb_positive_dates :: "(string \<times> encounter) list \<Rightarrow> string list" where
  "tb_positive_dates es = map fst (filter (\<lambda>(d, e). tb e = Some ''1'') es)"

definition tb_issues :: "services \<Rightarrow> string list" where
  "tb_issues s = (if ipt_codes s = {} then map tb_no_ipt_msg (tb_positive_dates (encounters s)) else [])"

definition lab_incomplete :: "lab \<Rightarrow> bool" where
  "lab_incomplete l =
     (test_id l = None \<or> test_id l = Some [] \<or> collected l = None \<or> collected l = Some [])"

definition lab_issues :: "(string \<times> lab) list \<Rightarrow> string list" where
  "lab_issues ls = map (\<lambda>(date, l). lab_incomplete_msg date) (filter (\<lambda>(date, l). lab_incomplete l) ls)"

text \<open>A regimen whose duration field is there, is not empty and is read by \<open>int\<close> as an
  integer above 30, and whose MMD flag is absent or empty.\<close>

definition needs_mmd :: "int_fn \<Rightarrow> regimen \<Rightarrow> bool" where
  "needs_mmd int_of_str r =
     (case duration r of
        None \<Rightarrow> False
      | Some d \<Rightarrow> d \<noteq> [] \<and> (case int_of_str d of
                               Inl e \<Rightarrow> False
                             | Inr n \<Rightarrow> 30 < n \<and> (mmd r = None \<or> mmd r = Some [])))"

definition mmd_issues :: "int_fn \<Rightarrow> (string \<times> regimen) list \<Rightarrow> string list" where
  "mmd_issues int_of_str rs =
     map (\<lambda>(date, r). mmd_msg date) (filter (\<lambda>(date, r). needs_mmd int_of_str r) rs)"

fun arv_match_issues :: "(string \<times> regimen) list \<Rightarrow> (string \<times> encounter) list \<Rightarrow> string list" where
  "arv_match_issues regs [] = []"
| "arv_match_issues regs ((date, e) # rest) =
     (case map_of regs date of
        None \<Rightarrow> []
      | Some reg \<Rightarrow>
          if type reg = Some ''ART'' \<and> truthy (arv e) \<and> code reg \<noteq> [] \<and> arv e \<noteq> Some (code reg)
          then [arv_mismatch_msg date (arv e) (code reg)] else [])
     @ arv_match_issues regs rest"

definition age_issues :: "strptime_fn \<Rightarrow> int_fn \<Rightarrow> services \<Rightarrow> string list" where
  "age_issues strptime int_of_str s =
     (case (dict_get (patient s) ''dob'', dict_get (patient s) ''report_date'', dict_get (patient s) ''age'') of
        (Some dob, Some report_date, Some age) \<Rightarrow>
          (case (strptime dob, strptime report_date, int_of_str age) of
             (Inr dob_dt, Inr rpt_dt, Inr n) \<Rightarrow>
               if abs (n - calc_age rpt_dt dob_dt) > 1
               then [age_mismatch_msg (Some age) (calc_age rpt_dt dob_dt)] else []
           | _ \<Rightarrow> [age_format_warning])
      | _ \<Rightarrow> [age_format_warning])"

subsection \<open>Recognising the issues of a rule\<close>

text \<open>Each message begins with a fixed text, which tells the rule it comes from.\<close>

definition is_before_art_issue :: "string \<Rightarrow> bool" where
  "is_before_art_issue i = prefix (cross_mark @ '' Encounter on '') i"

definition is_tb_issue :: "string \<Rightarrow> bool" where
  "is_tb_issue i = prefix (cross_mark @ '' TB positive on '') i"

definition is_mmd_issue :: "string \<Rightarrow> bool" where
  "is_mmd_issue i = prefix (cross_mark @ '' Regimen on '') i"


subsection \<open>The extraction, stated on the document\<close>

text \<open>The dictionary that a loop builds from the nodes of one kind, starting from \<open>d\<close>.\<close>

fun dict_of_nodes :: "(element \<Rightarrow> 'v) \<Rightarrow> element list \<Rightarrow> (string \<times> 'v) list \<Rightarrow> (string \<times> 'v) list" where
  "dict_of_nodes entry [] d = d"
| "dict_of_nodes entry (n # ns) d = dict_of_nodes entry ns (dict_set (visit_date n) (entry n) d)"

text \<open>The entry of the last node, in document order, whose key is \<open>k\<close>.\<close>

definition last_entry :: "(element \<Rightarrow> 'v) \<Rightarrow> element list \<Rightarrow> string \<Rightarrow> 'v option" where
  "last_entry entry nodes k =
     (let same = filter (\<lambda>n. visit_date n = k) nodes
      in if same = [] then None else Some (entry (last same)))"

text \<open>The text of the ART start field, and the date read from it.\<close>

definition art_start_field :: "element \<Rightarrow> string option" where
  "art_start_field root =
     (case find_elem root ''HIVQuestions'' of None \<Rightarrow> None | Some hiv_q \<Rightarrow> findtext hiv_q ''ARTStartDate'')"

definition parsed_art_start :: "strptime_fn \<Rightarrow> element \<Rightarrow> datetime option" where
  "parsed_art_start strptime root =
     (case art_start_field root of
        None \<Rightarrow> None
      | Some d \<Rightarrow> if d = [] then None
                  else (case strptime d of Inl e \<Rightarrow> None | Inr dt \<Rightarrow> Some dt))"

text \<open>The visit dates of the regimen nodes whose code contains \<open>INH\<close>.\<close>

definition inh_dates :: "upper_fn \<Rightarrow> element list \<Rightarrow> string set" where
  "inh_dates str_upper nodes = set (map visit_date (filter (\<lambda>n. has_inh str_upper (regimen_code n)) nodes))"

subsection \<open>The form YYYY-MM-DD\<close>

definition is_digit :: "char \<Rightarrow> bool" where
  "is_digit c = (48 \<le> (of_char c :: nat) \<and> (of_char c :: nat) \<le> 57)"

text \<open>The form that the specification names for a date, \<open>YYYY-MM-DD\<close>, read to the
  letter: four digits, a dash, two digits, a dash, two digits.\<close>

definition strict_ymd :: "string \<Rightarrow> bool" where
  "strict_ymd s =
     (case s of
        [y1, y2, y3, y4, dash1, m1, m2, dash2, d1, d2] \<Rightarrow>
          is_digit y1 \<and> is_digit y2 \<and> is_digit y3 \<and> is_digit y4 \<and> dash1 = CHR ''-''
          \<and> is_digit m1 \<and> is_digit m2 \<and> dash2 = CHR ''-'' \<and> is_digit d1 \<and> is_digit d2
      | _ \<Rightarrow> False)"

subsection \<open>The library on ASCII strings\<close>

text \<open>
  For the examples the parameters \<open>strptime\<close>, \<open>int_of_str\<close> and \<open>str_upper\<close> are instantiated
  with the three functions of this subsection. They compute what the interpreter's
  functions return on strings of ASCII characters (for \<open>int\<close>, of at most 4300 of
  them), and every string in the examples is such a string. What the interpreter does
  with digits, white space and letters outside ASCII, and with longer numerals, is not
  their subject; the general theorems do not refer to them.
\<close>

definition digit_val :: "char \<Rightarrow> nat" where
  "digit_val c = of_char c - 48"

text \<open>The white space that \<open>int\<close> skips around an ASCII string: tab to carriage
  return, and the space.\<close>

definition is_space :: "char \<Rightarrow> bool" where
  "is_space c = (let n = (of_char c :: nat) in (9 \<le> n \<and> n \<le> 13) \<or> n = 32)"

definition strip :: "string \<Rightarrow> string" where
  "strip s = rev (dropWhile is_space (rev (dropWhile is_space s)))"

text \<open>The digits of a base-10 literal as \<open>int\<close> reads them: decimal digits, with single
  underscores allowed between digits. \<open>digits_value acc prev_digit s\<close> returns the value,
  or \<open>None\<close> where \<open>int\<close> raises \<open>ValueError\<close>.\<close>

fun digits_value :: "nat \<Rightarrow> bool \<Rightarrow> string \<Rightarrow> nat option" where
  "digits_value acc prev_digit [] = (if prev_digit then Some acc else None)"
| "digits_value acc prev_digit (c # cs) =
     (if is_digit c then digits_value (10 * acc + digit_val c) True cs
      else if c = CHR ''_'' \<and> prev_digit then digits_value acc False cs
      else None)"

text \<open>\<open>int(s)\<close> for an ASCII string \<open>s\<close> of at most 4300 characters: surrounding white
  space is stripped, one sign is allowed, then the digits.\<close>

definition int_ascii :: int_fn where
  "int_ascii s =
     (let t = strip s;
          (neg, ds) = (case t of
                         c # cs \<Rightarrow> if c = CHR ''-'' then (True, cs)
                                   else if c = CHR ''+'' then (False, cs)
                                   else (False, t)
                       | [] \<Rightarrow> (False, t))
      in case digits_value 0 False ds of
           None \<Rightarrow> Inl ValueError
         | Some n \<Rightarrow> Inr (if neg then - int n else int n))"

definition is_leap :: "nat \<Rightarrow> bool" where
  "is_leap y = (y mod 4 = 0 \<and> (y mod 100 \<noteq> 0 \<or> y mod 400 = 0))"

definition days_in_month :: "nat \<Rightarrow> nat \<Rightarrow> nat" where
  "days_in_month y m =
     (if m = 2 then (if is_leap y then 29 else 28)
      else if m = 4 \<or> m = 6 \<or> m = 9 \<or> m = 11 then 30 else 31)"

text \<open>The directive \<open>%m\<close>: the library's pattern is \<open>1[0-2]|0[1-9]|[1-9]\<close>.\<close>

fun parse_month :: "string \<Rightarrow> nat option" where
  "parse_month [a] = (if is_digit a \<and> a \<noteq> CHR ''0'' then Some (digit_val a) else None)"
| "parse_month [a, b] =
     (if a = CHR ''1'' \<and> (b = CHR ''0'' \<or> b = CHR ''1'' \<or> b = CHR ''2'') then Some (10 + digit_val b)
      else if a = CHR ''0'' \<and> is_digit b \<and> b \<noteq> CHR ''0'' then Some (digit_val b)
      else None)"
| "parse_month _ = None"

text \<open>The directive \<open>%d\<close>: the library's pattern is \<open>3[0-1]|[1-2]\d|0[1-9]|[1-9]| [1-9]\<close>.\<close>

fun parse_day :: "string \<Rightarrow> nat option" where
  "parse_day [a] = (if is_digit a \<and> a \<noteq> CHR ''0'' then Some (digit_val a) else None)"
| "parse_day [a, b] =
     (if a = CHR ''3'' \<and> (b = CHR ''0'' \<or> b = CHR ''1'') then Some (30 + digit_val b)
      else if (a = CHR ''1'' \<or> a = CHR ''2'') \<and> is_digit b then Some (10 * digit_val a + digit_val b)
      else if (a = CHR ''0'' \<or> a = CHR '' '') \<and> is_digit b \<and> b \<noteq> CHR ''0'' then Some (digit_val b)
      else None)"
| "parse_day _ = None"

text \<open>\<open>datetime.strptime(s, "%Y-%m-%d")\<close> for an ASCII string \<open>s\<close>: four digits, a dash,
  the month, a dash, the day, and nothing after it; the year is at least 1 and the day
  exists in that month. As the patterns say, the library takes a month or a day of one
  digit as well as of two. Every failure is a \<open>ValueError\<close>.\<close>

definition strptime_ascii :: strptime_fn where
  "strptime_ascii s =
     (case s of
        y1 # y2 # y3 # y4 # dash # rest \<Rightarrow>
          if is_digit y1 \<and> is_digit y2 \<and> is_digit y3 \<and> is_digit y4 \<and> dash = CHR ''-'' then
            (let y = 1000 * digit_val y1 + 100 * digit_val y2 + 10 * digit_val y3 + digit_val y4;
                 ms = takeWhile (\<lambda>c. c \<noteq> CHR ''-'') rest;
                 ds = drop (Suc (length ms)) rest
             in if length ms < length rest then
                  (case (parse_month ms, parse_day ds) of
                     (Some m, Some d) \<Rightarrow>
                       if 1 \<le> y \<and> d \<le> days_in_month y m
                       then Inr \<lparr>year = y, month = m, day = d\<rparr>
                       else Inl ValueError
                   | _ \<Rightarrow> Inl ValueError)
                else Inl ValueError)
          else Inl ValueError
      | _ \<Rightarrow> Inl ValueError)"

text \<open>\<open>s.upper()\<close> for an ASCII string \<open>s\<close>.\<close>

definition char_upper :: "char \<Rightarrow> char" where
  "char_upper c = (let n = (of_char c :: nat) in if 97 \<le> n \<and> n \<le> 122 then char_of (n - 32) else c)"

definition upper_ascii :: upper_fn where
  "upper_ascii s = map char_upper s"

text \<open>A stand-in for the parser on files given by the tree they hold, if any: a file
  without one is not well-formed.\<close>

definition parse_given :: "element option \<Rightarrow> element result" where
  "parse_given f = (case f of None \<Rightarrow> Inl ParseError | Some root \<Rightarrow> Inr root)"

subsection \<open>Example records and documents\<close>

text \<open>A document with two regimens on one visit date, the first with an isoniazid code
  and the second without.\<close>

definition overwritten_inh_document :: element where
  "overwritten_inh_document =
     Element ''Container'' None
       [Element ''Regimen'' None
          [Element ''VisitDate'' (Some ''2024-03-01'') [],
           Element ''PrescribedRegimen'' None [Element ''Code'' (Some ''inh-300'') []]],
        Element ''Regimen'' None
          [Element ''VisitDate'' (Some ''2024-03-01'') [],
           Element ''PrescribedRegimen'' None [Element ''Code'' (Some ''TDF+3TC+DTG'') []]]]"



text \<open>A document with two encounters that have no visit date (one without the field, one
  with the field empty) and two laboratory reports on one date.\<close>

definition duplicate_dates_document :: element where
  "duplicate_dates_document =
     Element ''Container'' None
       [Element ''HIVEncounter'' None [Element ''TBStatus'' (Some ''0'') []],
        Element ''HIVEncounter'' None [Element ''VisitDate'' None [], Element ''TBStatus'' (Some ''1'') []],
        Element ''LaboratoryReport'' None
          [Element ''VisitDate'' (Some ''2024-03-01'') [], Element ''LaboratoryTestIdentifier'' (Some ''CD4'') []],
        Element ''LaboratoryReport'' None
          [Element ''VisitDate'' (Some ''2024-03-01'') [], Element ''CollectionDate'' (Some ''2024-03-02'') []]]"

text \<open>A record that every rule has something to say about: an encounter with an empty
  ARV code and a positive TB status before the ART start, an encounter without a date,
  an incomplete laboratory report, regimens with durations 90, unreadable and 30, a
  regimen code that differs from the encounter's, no IPT date, and a reported age of 25
  for a patient aged 23 at the report date.\<close>

definition example_services :: services where
  "example_services =
     \<lparr>encounters = [(''2024-01-15'', \<lparr>arv = Some [], tb = Some ''1''\<rparr>),
                    (''Unknown'', \<lparr>arv = Some ''TDF+3TC+DTG'', tb = None\<rparr>),
                    (''2024-02-10'', \<lparr>arv = Some ''TDF+3TC+DTG'', tb = Some ''0''\<rparr>)],
      regimens = [(''2024-01-15'', \<lparr>code = ''TDF+3TC+DTG'', type = Some ''ART'', mmd = None, dsd = None,
                                    duration = Some ''90''\<rparr>),
                  (''2024-02-10'', \<lparr>code = ''AZT'', type = Some ''ART'', mmd = Some [], dsd = None,
                                    duration = Some ''abc''\<rparr>),
                  (''2024-03-01'', \<lparr>code = ''AZT'', type = None, mmd = None, dsd = None,
                                    duration = Some ''30''\<rparr>)],
      labs = [(''2024-01-15'', \<lparr>test_id = Some [], collected = Some ''2024-01-16''\<rparr>)],
      patient = [''dob'' \<mapsto> Some ''2000-06-15'', ''age'' \<mapsto> Some ''25'',
                 ''report_date'' \<mapsto> Some ''2024-06-10''],
      art_start = Some \<lparr>year = 2024, month = 2, day = 10\<rparr>,
      ipt_codes = {}\<rparr>"

text \<open>A record with one encounter whose key has a month and a day of one digit, before
  the ART start, and no patient fields.\<close>

definition one_digit_key_services :: services where
  "one_digit_key_services =
     \<lparr>encounters = [(''2024-1-5'', \<lparr>arv = Some ''TDF+3TC+DTG'', tb = Some ''0''\<rparr>)],
      regimens = [], labs = [], patient = Map.empty,
      art_start = Some \<lparr>year = 2024, month = 2, day = 10\<rparr>,
      ipt_codes = {}\<rparr>"

section \<open>The loops of \<open>validate_ndr\<close>\<close>

lemma encounter_loop_eq: "encounter_loop es issues = issues @ encounter_issues es"
  by (induction es arbitrary: issues) (auto simp: Let_def truthy_def split: option.splits)

lemma art_start_loop_eq:
  "art_start_loop strptime art dates issues = Inr (issues @ art_start_issues strptime (Some art) dates)"
  by (induction dates arbitrary: issues)
     (auto simp: art_start_issues_def is_before_def bind_result_def try_except_def split: sum.splits)

lemma tb_loop_eq: "tb_loop ds issues = issues @ map tb_no_ipt_msg ds"
  by (induction ds arbitrary: issues) auto

lemma lab_loop_eq: "lab_loop ls issues = issues @ lab_issues ls"
  by (induction ls arbitrary: issues)
     (auto simp: lab_issues_def lab_incomplete_def truthy_def split: option.splits)

lemma duration_int_cases:
  "duration_int int_of_str v =
     (case v of None \<Rightarrow> Inr 0 | Some d \<Rightarrow> if d = [] then Inr 0 else int_of_str d)"
  by (simp add: duration_int_def truthy_def int_opt_def split: option.splits)

lemma needs_mmd_eq:
  "needs_mmd int_of_str r =
     (case duration_int int_of_str (duration r) of Inl e \<Rightarrow> False | Inr n \<Rightarrow> 30 < n \<and> \<not> truthy (mmd r))"
  by (auto simp: needs_mmd_def duration_int_cases truthy_def split: option.splits sum.splits)

lemma mmd_loop_eq: "mmd_loop int_of_str rs issues = Inr (issues @ mmd_issues int_of_str rs)"
  by (induction rs arbitrary: issues)
     (auto simp: mmd_issues_def needs_mmd_eq bind_result_def try_except_def split: sum.splits if_splits)

lemma arv_match_loop_eq: "arv_match_loop regs es issues = issues @ arv_match_issues regs es"
  by (induction es arbitrary: issues) (auto simp: Let_def split: option.splits)

lemma age_check_eq:
  "age_check strptime int_of_str s issues = Inr (issues @ age_issues strptime int_of_str s)"
  by (auto simp: age_check_def age_issues_def Let_def bind_result_def try_except_def
        strptime_opt_def int_opt_def split: sum.splits option.splits)

lemma cross_checks_eq:
  "cross_checks strptime int_of_str s =
     Inr (encounter_issues (encounters s)
          @ art_start_issues strptime (art_start s) (map fst (encounters s))
          @ tb_issues s @ lab_issues (labs s) @ mmd_issues int_of_str (regimens s)
          @ arv_match_issues (regimens s) (encounters s))"
  by (auto simp: cross_checks_def Let_def bind_result_def encounter_loop_eq art_start_loop_eq tb_loop_eq
        lab_loop_eq mmd_loop_eq arv_match_loop_eq tb_issues_def tb_positive_dates_def art_start_issues_def
      split: option.splits)

lemma validate_ndr_eq:
  "validate_ndr strptime int_of_str s =
     Inr (encounter_issues (encounters s)
          @ art_start_issues strptime (art_start s) (map fst (encounters s))
          @ tb_issues s @ lab_issues (labs s) @ mmd_issues int_of_str (regimens s)
          @ arv_match_issues (regimens s) (encounters s) @ age_issues strptime int_of_str s)"
  by (simp add: validate_ndr_def cross_checks_eq bind_result_def age_check_eq)

section \<open>Which rule a message comes from\<close>

lemmas msg_defs = missing_arv_msg_def missing_visit_date_msg_def before_art_start_msg_def
  tb_no_ipt_msg_def lab_incomplete_msg_def mmd_msg_def arv_mismatch_msg_def age_mismatch_msg_def
  age_format_warning_def cross_mark_def warning_sign_def

lemma is_before_art_issue_simps:
  "\<not> is_before_art_issue (missing_arv_msg d)"
  "\<not> is_before_art_issue missing_visit_date_msg"
  "is_before_art_issue (before_art_start_msg d a)"
  "\<not> is_before_art_issue (tb_no_ipt_msg d)"
  "\<not> is_before_art_issue (lab_incomplete_msg d)"
  "\<not> is_before_art_issue (mmd_msg d)"
  "\<not> is_before_art_issue (arv_mismatch_msg d x y)"
  "\<not> is_before_art_issue (age_mismatch_msg v n)"
  "\<not> is_before_art_issue age_format_warning"
  by (simp_all add: is_before_art_issue_def msg_defs)

lemma is_tb_issue_simps:
  "\<not> is_tb_issue (missing_arv_msg d)"
  "\<not> is_tb_issue missing_visit_date_msg"
  "\<not> is_tb_issue (before_art_start_msg d a)"
  "is_tb_issue (tb_no_ipt_msg d)"
  "\<not> is_tb_issue (lab_incomplete_msg d)"
  "\<not> is_tb_issue (mmd_msg d)"
  "\<not> is_tb_issue (arv_mismatch_msg d x y)"
  "\<not> is_tb_issue (age_mismatch_msg v n)"
  "\<not> is_tb_issue age_format_warning"
  by (simp_all add: is_tb_issue_def msg_defs)

lemma is_mmd_issue_simps:
  "\<not> is_mmd_issue (missing_arv_msg d)"
  "\<not> is_mmd_issue missing_visit_date_msg"
  "\<not> is_mmd_issue (before_art_start_msg d a)"
  "\<not> is_mmd_issue (tb_no_ipt_msg d)"
  "\<not> is_mmd_issue (lab_incomplete_msg d)"
  "is_mmd_issue (mmd_msg d)"
  "\<not> is_mmd_issue (arv_mismatch_msg d x y)"
  "\<not> is_mmd_issue (age_mismatch_msg v n)"
  "\<not> is_mmd_issue age_format_warning"
  by (simp_all add: is_mmd_issue_def msg_defs)


lemma filter_encounter_issues:
  "\<not> P missing_visit_date_msg \<Longrightarrow> (\<And>d. \<not> P (missing_arv_msg d)) \<Longrightarrow> filter P (encounter_issues es) = []"
  by (induction es) auto

lemma filter_art_start_issues:
  "(\<And>d a. P (before_art_start_msg d a) = b) \<Longrightarrow>
   filter P (art_start_issues strptime a dates) = (if b then art_start_issues strptime a dates else [])"
  by (auto simp: art_start_issues_def filter_map o_def split: option.splits)

lemma filter_tb_issues:
  "(\<And>d. P (tb_no_ipt_msg d) = b) \<Longrightarrow> filter P (tb_issues s) = (if b then tb_issues s else [])"
  by (auto simp: tb_issues_def filter_map o_def)

lemma filter_lab_issues: "(\<And>d. \<not> P (lab_incomplete_msg d)) \<Longrightarrow> filter P (lab_issues ls) = []"
  by (auto simp: lab_issues_def filter_map o_def split_def)

lemma filter_mmd_issues:
  "(\<And>d. P (mmd_msg d) = b) \<Longrightarrow>
   filter P (mmd_issues int_of_str rs) = (if b then mmd_issues int_of_str rs else [])"
  by (auto simp: mmd_issues_def filter_map o_def split_def)

lemma filter_arv_match_issues:
  "(\<And>d x y. \<not> P (arv_mismatch_msg d x y)) \<Longrightarrow> filter P (arv_match_issues regs es) = []"
  by (induction es) (auto split: option.splits)

lemma filter_age_issues:
  "P age_format_warning = b \<Longrightarrow> (\<And>v n. P (age_mismatch_msg v n) = b) \<Longrightarrow>
   filter P (age_issues strptime int_of_str s) = (if b then age_issues strptime int_of_str s else [])"
  by (auto simp: age_issues_def split: option.splits sum.splits)

section \<open>The loops of \<open>extract_services_with_dates\<close>\<close>

lemma map_of_dict_set: "map_of (dict_set k v d) = (map_of d)(k \<mapsto> v)"
  by (induction d) (auto simp: fun_eq_iff)

lemma keys_dict_set:
  "map fst (dict_set k v d) = (if k \<in> set (map fst d) then map fst d else map fst d @ [k])"
  by (induction d) (force+)

lemma distinct_dict_set: "distinct (map fst d) \<Longrightarrow> distinct (map fst (dict_set k v d))"
  by (simp add: keys_dict_set)

lemma distinct_dict_of_nodes: "distinct (map fst d) \<Longrightarrow> distinct (map fst (dict_of_nodes entry ns d))"
  by (induction ns arbitrary: d) (auto simp: distinct_dict_set)

lemma dict_of_nodes_snoc:
  "dict_of_nodes entry (ns @ [n]) d = dict_set (visit_date n) (entry n) (dict_of_nodes entry ns d)"
  by (induction ns arbitrary: d) auto

lemma map_of_dict_of_nodes:
  "map_of (dict_of_nodes entry ns d) k =
     (case last_entry entry ns k of None \<Rightarrow> map_of d k | Some v \<Rightarrow> Some v)"
proof (induction ns rule: rev_induct)
  case Nil
  show ?case by (simp add: last_entry_def)
next
  case (snoc n ns)
  then show ?case
    by (simp add: dict_of_nodes_snoc map_of_dict_set last_entry_def Let_def)
qed

lemma regimen_loop_regimens:
  "regimens (regimen_loop str_upper ns s) = dict_of_nodes regimen_entry ns (regimens s)"
  by (induction ns arbitrary: s) (simp_all add: Let_def)

lemma regimen_loop_ipt_codes:
  "ipt_codes (regimen_loop str_upper ns s) = ipt_codes s \<union> inh_dates str_upper ns"
  by (induction ns arbitrary: s) (auto simp: Let_def inh_dates_def)

lemma regimen_loop_other:
  "encounters (regimen_loop str_upper ns s) = encounters s"
  "labs (regimen_loop str_upper ns s) = labs s"
  "patient (regimen_loop str_upper ns s) = patient s"
  "art_start (regimen_loop str_upper ns s) = art_start s"
  by (induction ns arbitrary: s) (simp_all add: Let_def)

lemma hiv_encounter_loop_encounters:
  "encounters (hiv_encounter_loop ns s) = dict_of_nodes encounter_entry ns (encounters s)"
  by (induction ns arbitrary: s) simp_all

lemma hiv_encounter_loop_other:
  "regimens (hiv_encounter_loop ns s) = regimens s"
  "labs (hiv_encounter_loop ns s) = labs s"
  "patient (hiv_encounter_loop ns s) = patient s"
  "art_start (hiv_encounter_loop ns s) = art_start s"
  "ipt_codes (hiv_encounter_loop ns s) = ipt_codes s"
  by (induction ns arbitrary: s) simp_all

lemma laboratory_loop_labs:
  "labs (laboratory_loop ns s) = dict_of_nodes lab_entry ns (labs s)"
  by (induction ns arbitrary: s) simp_all

lemma laboratory_loop_other:
  "regimens (laboratory_loop ns s) = regimens s"
  "encounters (laboratory_loop ns s) = encounters s"
  "patient (laboratory_loop ns s) = patient s"
  "art_start (laboratory_loop ns s) = art_start s"
  "ipt_codes (laboratory_loop ns s) = ipt_codes s"
  by (induction ns arbitrary: s) simp_all

lemma patient_step_other:
  "encounters (patient_step root s) = encounters s"
  "regimens (patient_step root s) = regimens s"
  "labs (patient_step root s) = labs s"
  "art_start (patient_step root s) = art_start s"
  "ipt_codes (patient_step root s) = ipt_codes s"
  by (simp_all add: patient_step_def Let_def split: option.splits)

lemma art_start_step_eq:
  "art_start_step strptime root s =
     Inr (case parsed_art_start strptime root of None \<Rightarrow> s | Some dt \<Rightarrow> s\<lparr>art_start := Some dt\<rparr>)"
  by (auto simp: art_start_step_def parsed_art_start_def art_start_field_def Let_def truthy_def
        strptime_opt_def try_except_def bind_result_def
      split: option.splits sum.splits)

lemma extract_root_total: "\<exists>s. extract_root strptime str_upper root = Inr s"
  by (simp add: extract_root_def art_start_step_eq bind_result_def)

lemma extract_root_fields:
  assumes "extract_root strptime str_upper root = Inr s"
  shows "regimens s = dict_of_nodes regimen_entry (findall root ''Regimen'') []"
    and "encounters s = dict_of_nodes encounter_entry (findall root ''HIVEncounter'') []"
    and "labs s = dict_of_nodes lab_entry (findall root ''LaboratoryReport'') []"
    and "art_start s = parsed_art_start strptime root"
    and "ipt_codes s = inh_dates str_upper (findall root ''Regimen'')"
  using assms
  by (auto simp: extract_root_def art_start_step_eq bind_result_def
        laboratory_loop_labs laboratory_loop_other hiv_encounter_loop_encounters hiv_encounter_loop_other
        regimen_loop_regimens regimen_loop_ipt_codes regimen_loop_other patient_step_other
        empty_services_def
      split: option.splits)

section \<open>Membership of the completeness issues, and the use of the IPT dates\<close>

lemma missing_arv_in_encounter_issues:
  "(date, e) \<in> set es \<Longrightarrow> arv e = None \<or> arv e = Some [] \<Longrightarrow> missing_arv_msg date \<in> set (encounter_issues es)"
  by (induction es) auto

lemma lab_incomplete_in_lab_issues:
  "(date, l) \<in> set ls \<Longrightarrow> lab_incomplete l \<Longrightarrow> lab_incomplete_msg date \<in> set (lab_issues ls)"
  by (force simp: lab_issues_def)

lemma ipt_codes_only_emptiness:
  "(A = {}) = (B = {}) \<Longrightarrow>
   validate_ndr strptime int_of_str (s\<lparr>ipt_codes := A\<rparr>) = validate_ndr strptime int_of_str (s\<lparr>ipt_codes := B\<rparr>)"
  by (simp add: validate_ndr_eq tb_issues_def age_issues_def)

section \<open>The rules in full\<close>


lemma art_start_issues_formula:
  "art_start_issues strptime a dates =
     (case a of
        None \<Rightarrow> []
      | Some art \<Rightarrow>
          map (\<lambda>date. cross_mark @ '' Encounter on '' @ date @ '' before ARTStartDate '' @ isoformat art @ ''.'')
            (filter (\<lambda>date. case strptime date of
                               Inl e \<Rightarrow> False
                             | Inr d \<Rightarrow> year d < year art
                                        \<or> (year d = year art
                                            \<and> (month d < month art \<or> (month d = month art \<and> day d < day art))))
               dates))"
proof -
  have "is_before strptime art =
          (\<lambda>date. case strptime date of
                     Inl e \<Rightarrow> False
                   | Inr d \<Rightarrow> year d < year art
                              \<or> (year d = year art
                                  \<and> (month d < month art \<or> (month d = month art \<and> day d < day art))))" for art
    by (simp add: fun_eq_iff is_before_def dt_less_def split: sum.splits)
  then show ?thesis
    by (simp add: art_start_issues_def before_art_start_msg_def split: option.splits)
qed

lemma mmd_issues_formula:
  "mmd_issues int_of_str rs =
     map (\<lambda>(date, r). cross_mark @ '' Regimen on '' @ date @ '' has duration >30 but no MMD.'')
       (filter (\<lambda>(date, r). case duration r of
                               None \<Rightarrow> False
                             | Some d \<Rightarrow> d \<noteq> [] \<and> (case int_of_str d of
                                                      Inl e \<Rightarrow> False
                                                    | Inr n \<Rightarrow> 30 < n \<and> (mmd r = None \<or> mmd r = Some [])))
          rs)"
proof -
  have "needs_mmd int_of_str =
          (\<lambda>r. case duration r of
                  None \<Rightarrow> False
                | Some d \<Rightarrow> d \<noteq> [] \<and> (case int_of_str d of
                                         Inl e \<Rightarrow> False
                                       | Inr n \<Rightarrow> 30 < n \<and> (mmd r = None \<or> mmd r = Some [])))"
    by (simp add: fun_eq_iff needs_mmd_def split: option.splits sum.splits)
  then show ?thesis
    by (simp add: mmd_issues_def mmd_msg_def)
qed

section \<open>The example records and documents, evaluated\<close>


lemma strict_ymd_examples:
  "strict_ymd ''2024-01-15''"
  "\<not> strict_ymd ''2024-1-5''"
  "\<not> strict_ymd ''2024-2-9''"
  "\<not> strict_ymd ''Unknown''"
  by code_simp+

lemma example_validate_ndr:
  "validate_ndr strptime_ascii int_ascii example_services =
     Inr [missing_arv_msg ''2024-01-15'', missing_visit_date_msg,
          before_art_start_msg ''2024-01-15'' \<lparr>year = 2024, month = 2, day = 10\<rparr>,
          tb_no_ipt_msg ''2024-01-15'', lab_incomplete_msg ''2024-01-15'', mmd_msg ''2024-01-15'',
          arv_mismatch_msg ''2024-02-10'' (Some ''TDF+3TC+DTG'') ''AZT'',
          age_mismatch_msg (Some ''25'') 23]"
  by code_simp


lemma scenario_d_no_issue:
  "age_issues strptime_ascii int_ascii
     (example_services\<lparr>patient := [''dob'' \<mapsto> Some ''2000-06-15'', ''age'' \<mapsto> Some ''23'',
                                  ''report_date'' \<mapsto> Some ''2024-06-10'']\<rparr>) = []"
  by code_simp

lemma example_art_start_issues:
  "art_start_issues strptime_ascii (art_start example_services) (map fst (encounters example_services))
     = [cross_mark @ '' Encounter on 2024-01-15 before ARTStartDate 2024-02-10.'']"
  by code_simp

lemma example_tb_positive: "tb_positive_dates (encounters example_services) = [''2024-01-15'']"
  by code_simp

lemma example_mmd_issues:
  "mmd_issues int_ascii (regimens example_services)
     = [cross_mark @ '' Regimen on 2024-01-15 has duration >30 but no MMD.'']"
  by code_simp

lemma example_fields:
  "art_start example_services = Some \<lparr>year = 2024, month = 2, day = 10\<rparr>"
  "ipt_codes example_services = {}"
  "(''2024-01-15'', \<lparr>arv = Some [], tb = Some ''1''\<rparr>) \<in> set (encounters example_services)"
  "(''2024-01-15'', \<lparr>test_id = Some [], collected = Some ''2024-01-16''\<rparr>) \<in> set (labs example_services)"
  by (simp_all add: example_services_def)

lemma duplicate_last_encounter:
  "last_entry encounter_entry (findall duplicate_dates_document ''HIVEncounter'') ''Unknown''
     = Some \<lparr>arv = None, tb = Some ''1''\<rparr>"
  by code_simp

lemma duplicate_last_lab:
  "last_entry lab_entry (findall duplicate_dates_document ''LaboratoryReport'') ''2024-03-01''
     = Some \<lparr>test_id = None, collected = Some ''2024-03-02''\<rparr>"
  by code_simp


lemma overwritten_nodes:
  "map (\<lambda>n. (visit_date n, has_inh upper_ascii (regimen_code n))) (findall overwritten_inh_document ''Regimen'')
     = [(''2024-03-01'', True), (''2024-03-01'', False)]"
  by code_simp

lemma overwritten_inh_date:
  "''2024-03-01'' \<in> inh_dates upper_ascii (findall overwritten_inh_document ''Regimen'')"
  by code_simp

lemma overwritten_last_regimen:
  "last_entry regimen_entry (findall overwritten_inh_document ''Regimen'') ''2024-03-01''
     = Some \<lparr>code = ''TDF+3TC+DTG'', type = None, mmd = None, dsd = None, duration = None\<rparr>"
  by code_simp

lemma no_inh_in_tdf: "\<not> has_inh upper_ascii ''TDF+3TC+DTG''"
  by code_simp

section \<open>The claims\<close>



text \<open>
  C2, totality of the validator. On every record \<open>validate_ndr\<close> returns a list of
  issues and raises nothing; the same holds, from any list of issues collected so far,
  for each of the three parts whose body can raise: the loop of the ART start rule, the
  loop of the MMD rule and the age rule.
\<close>

theorem validate_ndr_total:
  "(\<exists>issues. validate_ndr strptime int_of_str s = Inr issues)
   \<and> (\<exists>issues. art_start_loop strptime art dates issues0 = Inr issues)
   \<and> (\<exists>issues. mmd_loop int_of_str rs issues0 = Inr issues)
   \<and> (\<exists>issues. age_check strptime int_of_str s issues0 = Inr issues)"
  by (simp add: validate_ndr_eq art_start_loop_eq mmd_loop_eq age_check_eq)

theorem validate_ndr_total_witness:
  "(\<exists>issues. validate_ndr strptime_ascii int_ascii example_services = Inr issues)
   \<and> (\<exists>issues. mmd_loop int_ascii (regimens example_services) [] = Inr issues)"
  using validate_ndr_total [where strptime = strptime_ascii and int_of_str = int_ascii
      and s = example_services and rs = "regimens example_services" and ?issues0.0 = "[]"]
  by simp

text \<open>
  C3, the ART start rule, as amended. Without an ART start date the rule has no issue.
  With one, its issues are, in the order of the encounters, one for every encounter key
  that \<open>strptime\<close> reads with \<open>%Y-%m-%d\<close> as a date strictly before the ART start, naming
  the key and the ART start date; a key that \<open>strptime\<close> does not read, or whose date is
  the ART start date or later, has no issue. What \<open>strptime\<close> reads is more than the form
  \<open>YYYY-MM-DD\<close>: see the counterexample.
\<close>

theorem art_start_rule:
  "\<exists>issues. validate_ndr strptime int_of_str s = Inr issues \<and>
     filter is_before_art_issue issues =
       (case art_start s of
          None \<Rightarrow> []
        | Some art \<Rightarrow>
            map (\<lambda>date. cross_mark @ '' Encounter on '' @ date @ '' before ARTStartDate ''
                          @ isoformat art @ ''.'')
              (filter (\<lambda>date. case strptime date of
                                 Inl e \<Rightarrow> False
                               | Inr d \<Rightarrow> year d < year art
                                          \<or> (year d = year art
                                              \<and> (month d < month art
                                                  \<or> (month d = month art \<and> day d < day art))))
                 (map fst (encounters s))))"
  by (simp add: validate_ndr_eq filter_encounter_issues filter_art_start_issues [where b = True]
        filter_tb_issues [where b = False] filter_lab_issues filter_mmd_issues [where b = False]
        filter_arv_match_issues filter_age_issues [where b = False] is_before_art_issue_simps)
     (simp add: art_start_issues_formula)

theorem art_start_rule_witness:
  "\<exists>issues. validate_ndr strptime_ascii int_ascii example_services = Inr issues \<and>
     filter is_before_art_issue issues
       = [cross_mark @ '' Encounter on 2024-01-15 before ARTStartDate 2024-02-10.'']"
  using art_start_rule [where strptime = strptime_ascii and int_of_str = int_ascii and s = example_services]
  unfolding art_start_issues_formula [symmetric] example_art_start_issues by blast

text \<open>
  The counterexample to C3 as it was stated. The key \<open>2024-1-5\<close> is not of the form
  \<open>YYYY-MM-DD\<close>, and \<open>strptime\<close> reads it as the fifth of January: the rule reports the
  encounter.
\<close>

theorem art_start_rule_counterexample:
  "\<not> strict_ymd ''2024-1-5''
   \<and> validate_ndr strptime_ascii int_ascii one_digit_key_services
       = Inr [cross_mark @ '' Encounter on 2024-1-5 before ARTStartDate 2024-02-10.'',
              age_format_warning]"
  by code_simp

text \<open>
  C4, the TB and IPT rule. The TB issues are one for every encounter whose TB status is
  exactly \<open>1\<close>, in the order of the encounters, when the set of IPT dates is empty, and
  none when it is not, whatever dates it holds.
\<close>

theorem tb_ipt_rule:
  "\<exists>issues. validate_ndr strptime int_of_str s = Inr issues \<and>
     filter is_tb_issue issues =
       (if ipt_codes s = {} then map tb_no_ipt_msg (tb_positive_dates (encounters s)) else [])"
  by (simp add: validate_ndr_eq filter_encounter_issues filter_art_start_issues [where b = False]
        filter_tb_issues [where b = True] filter_lab_issues filter_mmd_issues [where b = False]
        filter_arv_match_issues filter_age_issues [where b = False] is_tb_issue_simps)
     (simp add: tb_issues_def)

theorem tb_ipt_rule_witness:
  "\<exists>issues. validate_ndr strptime_ascii int_ascii example_services = Inr issues \<and>
     filter is_tb_issue issues = [tb_no_ipt_msg ''2024-01-15'']"
  using tb_ipt_rule [where strptime = strptime_ascii and int_of_str = int_ascii and s = example_services]
  by (simp add: example_fields(2) example_tb_positive)

text \<open>
  C5, the MMD rule. The MMD issues are one for every regimen whose duration field is
  read by \<open>int\<close> as an integer above 30 and whose MMD flag is absent or empty, naming the
  regimen's date. A regimen whose duration is absent or empty (it counts as zero), is
  not read by \<open>int\<close>, or is 30 or less has none, whatever its MMD flag.
\<close>

theorem mmd_rule:
  "\<exists>issues. validate_ndr strptime int_of_str s = Inr issues \<and>
     filter is_mmd_issue issues =
       map (\<lambda>(date, r). cross_mark @ '' Regimen on '' @ date @ '' has duration >30 but no MMD.'')
         (filter (\<lambda>(date, r). case duration r of
                                 None \<Rightarrow> False
                               | Some d \<Rightarrow> d \<noteq> [] \<and> (case int_of_str d of
                                                        Inl e \<Rightarrow> False
                                                      | Inr n \<Rightarrow> 30 < n \<and> (mmd r = None \<or> mmd r = Some [])))
            (regimens s))"
  by (simp add: validate_ndr_eq filter_encounter_issues filter_art_start_issues [where b = False]
        filter_tb_issues [where b = False] filter_lab_issues filter_mmd_issues [where b = True]
        filter_arv_match_issues filter_age_issues [where b = False] is_mmd_issue_simps)
     (simp add: mmd_issues_formula)

theorem mmd_rule_witness:
  "\<exists>issues. validate_ndr strptime_ascii int_ascii example_services = Inr issues \<and>
     filter is_mmd_issue issues = [cross_mark @ '' Regimen on 2024-01-15 has duration >30 but no MMD.'']"
  using mmd_rule [where strptime = strptime_ascii and int_of_str = int_ascii and s = example_services]
  unfolding mmd_issues_formula [symmetric] example_mmd_issues by blast

text \<open>
  C6, last write wins. For a document that parses, the keys of each extracted
  collection are distinct, the entry under a key is the one built from the last node of
  that kind, in document order, whose visit date is the key, and the visit date of a node
  without the field, or with the field empty, is \<open>Unknown\<close>.
\<close>

theorem last_write_wins:
  assumes "ET_parse xml_file = Inr root"
  shows "\<exists>s. extract_services_with_dates ET_parse strptime str_upper xml_file = Inr s
           \<and> distinct (map fst (encounters s)) \<and> distinct (map fst (regimens s)) \<and> distinct (map fst (labs s))
           \<and> map_of (encounters s) k = last_entry encounter_entry (findall root ''HIVEncounter'') k
           \<and> map_of (regimens s) k = last_entry regimen_entry (findall root ''Regimen'') k
           \<and> map_of (labs s) k = last_entry lab_entry (findall root ''LaboratoryReport'') k
           \<and> visit_date n = (case findtext n ''VisitDate'' of
                               None \<Rightarrow> ''Unknown''
                             | Some x \<Rightarrow> if x = [] then ''Unknown'' else x)"
proof -
  obtain s where s: "extract_root strptime str_upper root = Inr s"
    using extract_root_total by blast
  have "extract_services_with_dates ET_parse strptime str_upper xml_file = Inr s"
    by (simp add: extract_services_with_dates_def assms bind_result_def s)
  moreover have "distinct (map fst (encounters s))" "distinct (map fst (regimens s))" "distinct (map fst (labs s))"
    by (simp_all add: extract_root_fields [OF s] distinct_dict_of_nodes)
  moreover have "map_of (encounters s) k = last_entry encounter_entry (findall root ''HIVEncounter'') k"
    "map_of (regimens s) k = last_entry regimen_entry (findall root ''Regimen'') k"
    "map_of (labs s) k = last_entry lab_entry (findall root ''LaboratoryReport'') k"
    by (simp_all add: extract_root_fields [OF s] map_of_dict_of_nodes split: option.splits)
  moreover have "visit_date n = (case findtext n ''VisitDate'' of
                               None \<Rightarrow> ''Unknown''
                             | Some x \<Rightarrow> if x = [] then ''Unknown'' else x)"
    by (simp add: visit_date_def or_default_def)
  ultimately show ?thesis by blast
qed

theorem last_write_wins_witness:
  "parse_given (Some duplicate_dates_document) = Inr duplicate_dates_document
   \<and> (\<exists>s. extract_services_with_dates parse_given strptime_ascii upper_ascii (Some duplicate_dates_document) = Inr s
        \<and> distinct (map fst (encounters s))
        \<and> map_of (encounters s) ''Unknown'' = Some \<lparr>arv = None, tb = Some ''1''\<rparr>)
   \<and> (\<exists>s. extract_services_with_dates parse_given strptime_ascii upper_ascii (Some duplicate_dates_document) = Inr s
        \<and> distinct (map fst (labs s))
        \<and> map_of (labs s) ''2024-03-01'' = Some \<lparr>test_id = None, collected = Some ''2024-03-02''\<rparr>)"
  using last_write_wins [where ET_parse = parse_given and xml_file = "Some duplicate_dates_document"
      and root = duplicate_dates_document and k = "''Unknown''"
      and strptime = strptime_ascii and str_upper = upper_ascii]
    last_write_wins [where ET_parse = parse_given and xml_file = "Some duplicate_dates_document"
      and root = duplicate_dates_document and k = "''2024-03-01''"
      and strptime = strptime_ascii and str_upper = upper_ascii]
    duplicate_last_encounter duplicate_last_lab
  by (auto simp: parse_given_def)




text \<open>
  C9, the IPT dates survive overwriting. The extracted set of IPT dates is the set of
  the visit dates of all regimen nodes whose code, in upper case, contains \<open>INH\<close>,
  whether or not a later node overwrites the regimen entry of that date. In the
  document \<open>overwritten_inh_document\<close> the two regimen nodes have the same visit date,
  the first with such a code and the second without: the date is in the set, and the
  regimen entry of that date has the second node's code.
\<close>

theorem ipt_survives_overwrite:
  "(\<exists>s. extract_root strptime str_upper root = Inr s
        \<and> ipt_codes s = inh_dates str_upper (findall root ''Regimen''))
   \<and> (\<exists>s r. extract_root strptime upper_ascii overwritten_inh_document = Inr s
          \<and> map (\<lambda>n. (visit_date n, has_inh upper_ascii (regimen_code n)))
                (findall overwritten_inh_document ''Regimen'')
              = [(''2024-03-01'', True), (''2024-03-01'', False)]
          \<and> ''2024-03-01'' \<in> ipt_codes s
          \<and> map_of (regimens s) ''2024-03-01'' = Some r \<and> code r = ''TDF+3TC+DTG''
          \<and> \<not> has_inh upper_ascii (code r))"
proof
  show "\<exists>s. extract_root strptime str_upper root = Inr s
          \<and> ipt_codes s = inh_dates str_upper (findall root ''Regimen'')"
    using extract_root_total [of strptime str_upper root] extract_root_fields(5) by blast
next
  obtain s where s: "extract_root strptime upper_ascii overwritten_inh_document = Inr s"
    using extract_root_total by blast
  have ipt: "''2024-03-01'' \<in> ipt_codes s"
    by (simp add: extract_root_fields(5) [OF s] overwritten_inh_date)
  have reg: "map_of (regimens s) ''2024-03-01'' =
      Some \<lparr>code = ''TDF+3TC+DTG'', type = None, mmd = None, dsd = None, duration = None\<rparr>"
    by (simp add: extract_root_fields(1) [OF s] map_of_dict_of_nodes overwritten_last_regimen)
  from s overwritten_nodes ipt reg no_inh_in_tdf
  show "\<exists>s r. extract_root strptime upper_ascii overwritten_inh_document = Inr s
          \<and> map (\<lambda>n. (visit_date n, has_inh upper_ascii (regimen_code n)))
                (findall overwritten_inh_document ''Regimen'')
              = [(''2024-03-01'', True), (''2024-03-01'', False)]
          \<and> ''2024-03-01'' \<in> ipt_codes s
          \<and> map_of (regimens s) ''2024-03-01'' = Some r \<and> code r = ''TDF+3TC+DTG''
          \<and> \<not> has_inh upper_ascii (code r)"
    by simp
qed

theorem ipt_survives_overwrite_witness:
  "\<exists>s. extract_root strptime_ascii upper_ascii overwritten_inh_document = Inr s
      \<and> ''2024-03-01'' \<in> ipt_codes s
      \<and> ipt_codes s = inh_dates upper_ascii (findall overwritten_inh_document ''Regimen'')"
  using ipt_survives_overwrite [where strptime = strptime_ascii and str_upper = upper_ascii
      and root = overwritten_inh_document] overwritten_inh_date
  by auto

text \<open>
  C10, a field that is present but empty counts as missing. For every encounter whose
  ARV code is the empty string the issues hold the missing ARV message for its date,
  and for every laboratory report whose test identifier or collection date is the empty
  string they hold the incomplete report message for its date.
\<close>

theorem empty_counts_as_missing:
  "\<exists>issues. validate_ndr strptime int_of_str s = Inr issues \<and>
     (\<forall>date e. (date, e) \<in> set (encounters s) \<and> arv e = Some [] \<longrightarrow> missing_arv_msg date \<in> set issues) \<and>
     (\<forall>date l. (date, l) \<in> set (labs s) \<and> (test_id l = Some [] \<or> collected l = Some []) \<longrightarrow>
         lab_incomplete_msg date \<in> set issues)"
  by (auto simp: validate_ndr_eq missing_arv_in_encounter_issues lab_incomplete_in_lab_issues lab_incomplete_def)

theorem empty_counts_as_missing_witness:
  "(''2024-01-15'', \<lparr>arv = Some [], tb = Some ''1''\<rparr>) \<in> set (encounters example_services)
   \<and> (''2024-01-15'', \<lparr>test_id = Some [], collected = Some ''2024-01-16''\<rparr>) \<in> set (labs example_services)
   \<and> (\<exists>issues. validate_ndr strptime_ascii int_ascii example_services = Inr issues
         \<and> missing_arv_msg ''2024-01-15'' \<in> set issues \<and> lab_incomplete_msg ''2024-01-15'' \<in> set issues)"
proof -
  obtain issues where v: "validate_ndr strptime_ascii int_ascii example_services = Inr issues"
    and e: "\<forall>date e. (date, e) \<in> set (encounters example_services) \<and> arv e = Some [] \<longrightarrow> missing_arv_msg date \<in> set issues"
    and l: "\<forall>date l. (date, l) \<in> set (labs example_services) \<and> (test_id l = Some [] \<or> collected l = Some []) \<longrightarrow>
         lab_incomplete_msg date \<in> set issues"
    using empty_counts_as_missing [where strptime = strptime_ascii and int_of_str = int_ascii
        and s = example_services] by blast
  have "missing_arv_msg ''2024-01-15'' \<in> set issues"
    using e example_fields(3) by fastforce
  moreover have "lab_incomplete_msg ''2024-01-15'' \<in> set issues"
    using l example_fields(4) by fastforce
  ultimately show ?thesis using v example_fields(3,4) by blast
qed

end
